theory Spec2Isabelle
  imports
    Main
    "HOL-Library.Sublist"
    "HOL-Library.Char_ord"
    "HOL-Library.List_Lexorder"
    "HOL-Library.Product_Lexorder"
    "HOL-Library.Word"
begin

section \<open>Python values\<close>

text \<open>
  A Python \<open>str\<close> is a \<^typ>\<open>string\<close>, one \<^typ>\<open>char\<close> per character, and
  \<open>bytes\<close> is a list of 8-bit words. \<open>q in s\<close> on strings is \<^const>\<open>sublist\<close>.
  \<open>str.lower\<close> and \<open>str.upper\<close> map the ASCII letters and leave every other character
  as it is; no theorem below depends on which characters they map.
\<close>

type_synonym bytes = "8 word list"

definition upper_letters :: string where
  "upper_letters = ''ABCDEFGHIJKLMNOPQRSTUVWXYZ''"

definition lower_letters :: string where
  "lower_letters = ''abcdefghijklmnopqrstuvwxyz''"

definition char_lower :: "char \<Rightarrow> char" where
  "char_lower c = (case map_of (zip upper_letters lower_letters) c of None \<Rightarrow> c | Some d \<Rightarrow> d)"

definition char_upper :: "char \<Rightarrow> char" where
  "char_upper c = (case map_of (zip lower_letters upper_letters) c of None \<Rightarrow> c | Some d \<Rightarrow> d)"

definition lower :: "string \<Rightarrow> string" where
  "lower s = map char_lower s"

definition upper :: "string \<Rightarrow> string" where
  "upper s = map char_upper s"

text \<open>\<open>str(n)\<close> for an integer, and the format \<open>{n:,}\<close> with its thousands separators.\<close>

definition digit_char :: "nat \<Rightarrow> char" where
  "digit_char d = ''0123456789'' ! (d mod 10)"

fun str_nat :: "nat \<Rightarrow> string" where
  "str_nat n = (if n < 10 then [digit_char n] else str_nat (n div 10) @ [digit_char (n mod 10)])"

declare str_nat.simps [simp del]

definition str_int :: "int \<Rightarrow> string" where
  "str_int i = (if i < 0 then ''-'' @ str_nat (nat (- i)) else str_nat (nat i))"

fun group3 :: "nat \<Rightarrow> string" where
  "group3 n =
     (if n < 1000 then str_nat n
      else group3 (n div 1000) @ '','' @
           [digit_char (n div 100), digit_char (n div 10), digit_char n])"

declare group3.simps [simp del]

definition format_comma :: "int \<Rightarrow> string" where
  "format_comma i = (if i < 0 then ''-'' @ group3 (nat (- i)) else group3 (nat i))"

text \<open>\<open>sep.join(xs)\<close>.\<close>

fun join :: "string \<Rightarrow> string list \<Rightarrow> string" where
  "join sep [] = []"
| "join sep [x] = x"
| "join sep (x # y # ys) = x @ sep @ join sep (y # ys)"

definition nl :: string where
  "nl = [CHR 0x0A]"

text \<open>
  The exceptions the program can meet. \<open>IsADirectoryError\<close> is a subclass of \<open>OSError\<close>
  (which \<open>IOError\<close> names); \<open>UnicodeDecodeError\<close> and \<open>JSONDecodeError\<close> are two unrelated
  subclasses of \<open>ValueError\<close>. \<open>str_exc\<close> is \<open>str(e)\<close>, without the position or the
  path that ends the message of a \<open>JSONDecodeError\<close> or of an \<open>IsADirectoryError\<close>; no
  result of a tool shows these two.
\<close>

datatype py_error =
    KeyError string
  | UnicodeDecodeError string
  | JSONDecodeError
  | IsADirectoryError

fun str_exc :: "py_error \<Rightarrow> string" where
  "str_exc (KeyError k) = [CHR 0x27] @ k @ [CHR 0x27]"
| "str_exc (UnicodeDecodeError m) = m"
| "str_exc JSONDecodeError = ''Expecting value: line 1 column 1 (char 0)''"
| "str_exc IsADirectoryError = ''[Errno 21] Is a directory''"

fun is_OSError :: "py_error \<Rightarrow> bool" where
  "is_OSError IsADirectoryError = True"
| "is_OSError _ = False"

fun is_JSONDecodeError :: "py_error \<Rightarrow> bool" where
  "is_JSONDecodeError JSONDecodeError = True"
| "is_JSONDecodeError _ = False"

text \<open>Sequencing of computations that may raise.\<close>

fun and_then :: "py_error + 'a \<Rightarrow> ('a \<Rightarrow> py_error + 'b) \<Rightarrow> py_error + 'b" where
  "and_then (Inl e) f = Inl e"
| "and_then (Inr x) f = f x"

text \<open>
  A dictionary read from a JSON file is a record whose fields are the keys the program
  looks up, each of them optional: \<open>d.get(k, default)\<close> is \<^verbatim>\<open>get\<close> and \<open>d[k]\<close>,
  which raises \<open>KeyError\<close> on a missing key, is \<^verbatim>\<open>getitem\<close>. The values have the
  types the capture addon writes.
\<close>

definition get :: "'a option \<Rightarrow> 'a \<Rightarrow> 'a" where
  "get v dflt = (case v of None \<Rightarrow> dflt | Some x \<Rightarrow> x)"

definition getitem :: "string \<Rightarrow> 'a option \<Rightarrow> py_error + 'a" where
  "getitem k v = (case v of None \<Rightarrow> Inl (KeyError k) | Some x \<Rightarrow> Inr x)"

section \<open>The data model\<close>

text \<open>A header dictionary keeps its insertion order; its keys are distinct.\<close>

type_synonym headers = "(string \<times> string) list"

record index_entry =
  ie_id :: "string option"
  ie_timestamp :: "string option"
  ie_method :: "string option"
  ie_url :: "string option"
  ie_host :: "string option"
  ie_status_code :: "int option"
  ie_content_type :: "string option"
  ie_request_size :: "int option"
  ie_response_size :: "int option"

record request_part =
  rq_method :: "string option"
  rq_url :: "string option"
  rq_host :: "string option"
  rq_port :: "int option"
  rq_path :: "string option"
  rq_scheme :: "string option"
  rq_headers :: "headers option"
  rq_content :: "string option"
  rq_content_length :: "int option"

record response_part =
  rs_status_code :: "int option"
  rs_reason :: "string option"
  rs_headers :: "headers option"
  rs_content :: "string option"
  rs_content_length :: "int option"

text \<open>
  The top-level dictionary of a file: the index file holds \<open>requests\<close>, a record file
  holds \<open>id\<close>, \<open>timestamp\<close>, \<open>request\<close> and \<open>response\<close>.
\<close>

record doc =
  d_requests :: "index_entry list option"
  d_id :: "string option"
  d_timestamp :: "string option"
  d_request :: "request_part option"
  d_response :: "response_part option"

definition empty_doc :: doc where
  "empty_doc = \<lparr>d_requests = None, d_id = None, d_timestamp = None,
                 d_request = None, d_response = None\<rparr>"

definition empty_index :: doc where
  "empty_index = empty_doc\<lparr>d_requests := Some []\<rparr>"

section \<open>The traffic directory\<close>

text \<open>
  The directory \<open>TRAFFIC_DIR\<close>, which \<open>main\<close> creates before it serves a call, is its
  listing: names with what they name, in the order the operating system lists them. An
  entry is a sub-directory or a regular file; a file's content either cannot be decoded
  as text (with the codec's message), or is text that is not JSON, or is a JSON
  document. Names are plain file names: a request identifier is not followed into a
  sub-directory.
\<close>

datatype content = Undecodable string | Malformed | Json doc

datatype node = Directory | File content

type_synonym store = "(string \<times> node) list"

definition INDEX_NAME :: string where
  "INDEX_NAME = ''index.json''"

definition request_file :: "string \<Rightarrow> string" where
  "request_file request_id = request_id @ ''.json''"

text \<open>
  \<open>with open(path, 'r') as f: return json.load(f)\<close> on an existing path: \<open>open\<close>
  raises on a sub-directory, reading the text raises \<open>UnicodeDecodeError\<close> on bytes that
  are not text, and the parser raises \<open>JSONDecodeError\<close> on text that is not JSON.
  \<open>read_index\<close> and \<open>read_request\<close> catch \<open>(json.JSONDecodeError, IOError)\<close>.
\<close>

fun json_load :: "node \<Rightarrow> py_error + doc" where
  "json_load Directory = Inl IsADirectoryError"
| "json_load (File (Undecodable m)) = Inl (UnicodeDecodeError m)"
| "json_load (File Malformed) = Inl JSONDecodeError"
| "json_load (File (Json d)) = Inr d"

definition read_index :: "store \<Rightarrow> py_error + doc" where
  "read_index st =
     (case map_of st INDEX_NAME of
        None \<Rightarrow> Inr empty_index
      | Some n \<Rightarrow>
          (case json_load n of
             Inr d \<Rightarrow> Inr d
           | Inl e \<Rightarrow> if is_JSONDecodeError e \<or> is_OSError e then Inr empty_index else Inl e))"

definition read_request :: "store \<Rightarrow> string \<Rightarrow> py_error + doc option" where
  "read_request st request_id =
     (case map_of st (request_file request_id) of
        None \<Rightarrow> Inr None
      | Some n \<Rightarrow>
          (case json_load n of
             Inr d \<Rightarrow> Inr (Some d)
           | Inl e \<Rightarrow> if is_JSONDecodeError e \<or> is_OSError e then Inr None else Inl e))"

section \<open>Tool arguments and results\<close>

record arguments =
  a_limit :: "int option"
  a_host_filter :: "string option"
  a_method_filter :: "string option"
  a_status_filter :: "int option"
  a_url_filter :: "string option"
  a_request_id :: "string option"
  a_query :: "string option"
  a_search_headers :: "bool option"
  a_request_ids :: "string list option"

definition no_arguments :: arguments where
  "no_arguments = \<lparr>a_limit = None, a_host_filter = None, a_method_filter = None,
     a_status_filter = None, a_url_filter = None, a_request_id = None, a_query = None,
     a_search_headers = None, a_request_ids = None\<rparr>"

section \<open>list_requests\<close>

text \<open>Truth value of an optional integer: \<open>None\<close> and \<open>0\<close> are false.\<close>

fun truthy_int :: "int option \<Rightarrow> bool" where
  "truthy_int None = False"
| "truthy_int (Some n) = (n \<noteq> 0)"

text \<open>The filtering loop of \<open>tool_list_requests\<close>, with its four \<open>continue\<close>s.\<close>

fun filter_loop ::
  "string \<Rightarrow> string \<Rightarrow> int option \<Rightarrow> string \<Rightarrow> index_entry list \<Rightarrow> index_entry list
     \<Rightarrow> index_entry list" where
  "filter_loop host_filter method_filter status_filter url_filter [] filtered = filtered"
| "filter_loop host_filter method_filter status_filter url_filter (req # requests) filtered =
     (if host_filter \<noteq> [] \<and> \<not> sublist host_filter (lower (get (ie_host req) [])) then
        filter_loop host_filter method_filter status_filter url_filter requests filtered
      else if method_filter \<noteq> [] \<and> upper (get (ie_method req) []) \<noteq> method_filter then
        filter_loop host_filter method_filter status_filter url_filter requests filtered
      else if truthy_int status_filter \<and> ie_status_code req \<noteq> status_filter then
        filter_loop host_filter method_filter status_filter url_filter requests filtered
      else if url_filter \<noteq> [] \<and> \<not> sublist url_filter (lower (get (ie_url req) [])) then
        filter_loop host_filter method_filter status_filter url_filter requests filtered
      else
        filter_loop host_filter method_filter status_filter url_filter requests
          (filtered @ [req]))"

text \<open>\<open>if limit > 0: filtered = filtered[-limit:]\<close>.\<close>

definition apply_limit :: "int \<Rightarrow> 'a list \<Rightarrow> 'a list" where
  "apply_limit limit filtered =
     (if limit > 0 then drop (length filtered - nat limit) filtered else filtered)"

definition list_select :: "arguments \<Rightarrow> index_entry list \<Rightarrow> index_entry list" where
  "list_select params requests =
     (let host_filter = lower (get (a_host_filter params) []);
          method_filter = upper (get (a_method_filter params) []);
          status_filter = a_status_filter params;
          url_filter = lower (get (a_url_filter params) []);
          limit = get (a_limit params) 100
      in apply_limit limit
           (filter_loop host_filter method_filter status_filter url_filter requests []))"

text \<open>One block of the listing; the keys are read in the order the f-string names them.\<close>

definition entry_line :: "index_entry \<Rightarrow> py_error + string" where
  "entry_line req =
     and_then (getitem ''id'' (ie_id req)) (\<lambda>i.
     and_then (getitem ''timestamp'' (ie_timestamp req)) (\<lambda>ts.
     and_then (getitem ''method'' (ie_method req)) (\<lambda>m.
     and_then (getitem ''url'' (ie_url req)) (\<lambda>u.
     and_then (getitem ''status_code'' (ie_status_code req)) (\<lambda>sc.
       Inr (''['' @ i @ ''] '' @ ts @ nl @
            ''  '' @ m @ '' '' @ u @ nl @
            ''  Status: '' @ str_int sc @ '' | '' @
            ''Request: '' @ str_int (get (ie_request_size req) 0) @ '' bytes | '' @
            ''Response: '' @ str_int (get (ie_response_size req) 0) @ '' bytes'' @ nl))))))"

fun entry_lines :: "index_entry list \<Rightarrow> py_error + string list" where
  "entry_lines [] = Inr []"
| "entry_lines (req # reqs) =
     and_then (entry_line req) (\<lambda>l.
     and_then (entry_lines reqs) (\<lambda>ls. Inr (l # ls)))"

definition no_requests_message :: string where
  "no_requests_message =
     ''No requests captured yet. Configure your browser to use the proxy at localhost:8888.''"

definition list_render :: "index_entry list \<Rightarrow> py_error + string" where
  "list_render filtered =
     (if filtered = [] then Inr no_requests_message
      else and_then (entry_lines filtered) (\<lambda>ls.
             Inr (join nl ((''Found '' @ str_nat (length filtered) @ '' captured requests:'' @ nl)
                           # ls))))"

definition tool_list_requests :: "arguments \<Rightarrow> store \<Rightarrow> py_error + string" where
  "tool_list_requests params st =
     and_then (read_index st) (\<lambda>index.
       list_render (list_select params (get (d_requests index) [])))"

section \<open>read_request\<close>

definition header_lines :: "headers \<Rightarrow> string list" where
  "header_lines hs = map (\<lambda>(key, val). ''  '' @ key @ '': '' @ val) hs"

definition request_lines :: "request_part \<Rightarrow> py_error + string list" where
  "request_lines req =
     and_then (getitem ''method'' (rq_method req)) (\<lambda>m.
     and_then (getitem ''url'' (rq_url req)) (\<lambda>u.
     and_then (getitem ''host'' (rq_host req)) (\<lambda>h.
     and_then (getitem ''port'' (rq_port req)) (\<lambda>p.
     and_then (getitem ''scheme'' (rq_scheme req)) (\<lambda>s.
     and_then (getitem ''headers'' (rq_headers req)) (\<lambda>hs.
     and_then (getitem ''content'' (rq_content req)) (\<lambda>c.
     and_then
       (if c \<noteq> [] then
          and_then (getitem ''content_length'' (rq_content_length req)) (\<lambda>n.
            Inr [''Request Body ('' @ str_int n @ '' bytes):'', c])
        else Inr [''Request Body: (empty)'']) (\<lambda>body.
       Inr ([''--- REQUEST ---'',
             m @ '' '' @ u,
             ''Host: '' @ h @ '':'' @ str_int p,
             ''Scheme: '' @ s,
             [],
             ''Request Headers:''] @ header_lines hs @ [[]] @ body)))))))))"

text \<open>
  The rendered response body: over 50000 characters it is cut, and the marker gives
  \<open>len(resp['content'])\<close>.
\<close>

definition truncation_marker :: "string \<Rightarrow> string" where
  "truncation_marker c = nl @ ''... [truncated, '' @ str_nat (length c) @ '' total bytes]''"

definition rendered_body :: "string \<Rightarrow> string" where
  "rendered_body c = (if length c > 50000 then take 50000 c @ truncation_marker c else c)"

definition response_lines :: "response_part \<Rightarrow> py_error + string list" where
  "response_lines resp =
     and_then (getitem ''status_code'' (rs_status_code resp)) (\<lambda>sc.
     and_then (getitem ''reason'' (rs_reason resp)) (\<lambda>r.
     and_then (getitem ''headers'' (rs_headers resp)) (\<lambda>hs.
     and_then (getitem ''content'' (rs_content resp)) (\<lambda>c.
     and_then
       (if c \<noteq> [] then
          and_then (getitem ''content_length'' (rs_content_length resp)) (\<lambda>n.
            Inr [''Response Body ('' @ str_int n @ '' bytes):'', rendered_body c])
        else Inr [''Response Body: (empty)'']) (\<lambda>body.
       Inr ([''--- RESPONSE ---'',
             ''Status: '' @ str_int sc @ '' '' @ r,
             [],
             ''Response Headers:''] @ header_lines hs @ [[]] @ body))))))"

definition record_lines :: "doc \<Rightarrow> py_error + string list" where
  "record_lines data =
     and_then (getitem ''request'' (d_request data)) (\<lambda>req.
     and_then (getitem ''response'' (d_response data)) (\<lambda>resp.
     and_then (getitem ''id'' (d_id data)) (\<lambda>i.
     and_then (getitem ''timestamp'' (d_timestamp data)) (\<lambda>ts.
     and_then (request_lines req) (\<lambda>rl.
     and_then (response_lines resp) (\<lambda>sl.
       Inr ([''=== REQUEST '' @ i @ '' ==='', ''Timestamp: '' @ ts, []] @ rl @ [[]] @ sl)))))))"

definition request_id_required :: string where
  "request_id_required = ''Error: request_id is required''"

definition not_found_message :: "string \<Rightarrow> string" where
  "not_found_message request_id =
     ''Error: Request with ID '' @ [CHR 0x27] @ request_id @ [CHR 0x27] @ '' not found''"

definition tool_read_request :: "arguments \<Rightarrow> store \<Rightarrow> py_error + string" where
  "tool_read_request params st =
     (case a_request_id params of
        None \<Rightarrow> Inr request_id_required
      | Some request_id \<Rightarrow>
          if request_id = [] then Inr request_id_required
          else
            and_then (read_request st request_id) (\<lambda>data.
              case data of
                None \<Rightarrow> Inr (not_found_message request_id)
              | Some d \<Rightarrow> and_then (record_lines d) (\<lambda>output. Inr (join nl output))))"

section \<open>search_requests\<close>

text \<open>The loop over one side's headers, left at the first hit.\<close>

fun headers_hit :: "string \<Rightarrow> headers \<Rightarrow> bool" where
  "headers_hit query [] = False"
| "headers_hit query ((key, val) # hs) =
     (if sublist query (lower key) \<or> sublist query (lower val) then True
      else headers_hit query hs)"

definition found_in :: "string \<Rightarrow> bool \<Rightarrow> request_part \<Rightarrow> response_part \<Rightarrow> string list" where
  "found_in query search_headers req resp =
     (if sublist query (lower (get (rq_content req) [])) then [''request body''] else []) @
     (if sublist query (lower (get (rs_content resp) [])) then [''response body''] else []) @
     (if sublist query (lower (get (rq_url req) [])) then [''URL''] else []) @
     (if search_headers then
        (if headers_hit query (get (rq_headers req) []) then [''request headers''] else []) @
        (if headers_hit query (get (rs_headers resp) []) then [''response headers''] else [])
      else [])"

record match =
  m_id :: string
  m_method :: string
  m_url :: string
  m_found_in :: "string list"

fun search_loop ::
  "string \<Rightarrow> bool \<Rightarrow> store \<Rightarrow> index_entry list \<Rightarrow> match list \<Rightarrow> py_error + match list" where
  "search_loop query search_headers st [] matches = Inr matches"
| "search_loop query search_headers st (req_summary # rest) matches =
     and_then (getitem ''id'' (ie_id req_summary)) (\<lambda>i.
     and_then (read_request st i) (\<lambda>data.
       case data of
         None \<Rightarrow> search_loop query search_headers st rest matches
       | Some d \<Rightarrow>
           and_then (getitem ''request'' (d_request d)) (\<lambda>req.
           and_then (getitem ''response'' (d_response d)) (\<lambda>resp.
             let fi = found_in query search_headers req resp in
             if fi \<noteq> [] then
               and_then (getitem ''method'' (ie_method req_summary)) (\<lambda>m.
               and_then (getitem ''url'' (ie_url req_summary)) (\<lambda>u.
                 search_loop query search_headers st rest
                   (matches @ [\<lparr>m_id = i, m_method = m, m_url = u, m_found_in = fi\<rparr>])))
             else search_loop query search_headers st rest matches))))"

definition match_line :: "match \<Rightarrow> string" where
  "match_line m =
     ''['' @ m_id m @ ''] '' @ m_method m @ '' '' @ m_url m @ nl @
     ''  Found in: '' @ join '', '' (m_found_in m) @ nl"

definition query_required :: string where
  "query_required = ''Error: query is required''"

definition search_render :: "string \<Rightarrow> match list \<Rightarrow> string" where
  "search_render query matches =
     (if matches = [] then
        ''No requests found matching '' @ [CHR 0x27] @ query @ [CHR 0x27]
      else
        join nl ((''Found '' @ str_nat (length matches) @ '' requests matching '' @
                  [CHR 0x27] @ query @ [CHR 0x27] @ '':'' @ nl) # map match_line matches))"

definition tool_search_requests :: "arguments \<Rightarrow> store \<Rightarrow> py_error + string" where
  "tool_search_requests params st =
     (let query = lower (get (a_query params) []);
          search_headers = get (a_search_headers params) False
      in if query = [] then Inr query_required
         else
           and_then (read_index st) (\<lambda>index.
           and_then (search_loop query search_headers st (get (d_requests index) []) [])
             (\<lambda>matches. Inr (search_render query matches))))"

section \<open>clear_requests\<close>

text \<open>
  \<open>TRAFFIC_DIR.glob("*.json")\<close> yields the listed names that end in \<open>.json\<close>,
  sub-directories included. \<open>unlink\<close> removes a file and raises on a sub-directory;
  \<open>open(path, 'w')\<close> creates or overwrites a file and raises on a sub-directory.
\<close>

definition glob_json :: "store \<Rightarrow> (string \<times> node) list" where
  "glob_json st = filter (\<lambda>(name, n). suffix ''.json'' name) st"

definition remove_name :: "string \<Rightarrow> store \<Rightarrow> store" where
  "remove_name name st = filter (\<lambda>(k, n). k \<noteq> name) st"

definition unlink :: "string \<times> node \<Rightarrow> store \<Rightarrow> py_error + store" where
  "unlink f st =
     (case snd f of
        Directory \<Rightarrow> Inl IsADirectoryError
      | File c \<Rightarrow> Inr (remove_name (fst f) st))"

definition write_file :: "string \<Rightarrow> doc \<Rightarrow> store \<Rightarrow> py_error + store" where
  "write_file name d st =
     (case map_of st name of
        None \<Rightarrow> Inr (st @ [(name, File (Json d))])
      | Some Directory \<Rightarrow> Inl IsADirectoryError
      | Some (File c) \<Rightarrow>
          Inr (map (\<lambda>(k, n). if k = name then (k, File (Json d)) else (k, n)) st))"

text \<open>
  The deletion loop of \<open>clear_traffic\<close>. It returns the directory as the loop leaves it
  and the exception that ended it, if one did.
\<close>

fun unlink_loop :: "(string \<times> node) list \<Rightarrow> store \<Rightarrow> py_error option \<times> store" where
  "unlink_loop [] st = (None, st)"
| "unlink_loop (f # fs) st =
     (if fst f \<noteq> ''index.json'' then
        (case unlink f st of
           Inl e \<Rightarrow> (Some e, st)
         | Inr st' \<Rightarrow> unlink_loop fs st')
      else unlink_loop fs st)"

text \<open>\<open>clear_traffic\<close> returns the directory it leaves and the line it logs.\<close>

definition clear_traffic :: "store \<Rightarrow> store \<times> string" where
  "clear_traffic st =
     (case unlink_loop (glob_json st) st of
        (Some e, st1) \<Rightarrow> (st1, ''Error clearing traffic: '' @ str_exc e)
      | (None, st1) \<Rightarrow>
          (case write_file INDEX_NAME empty_index st1 of
             Inl e \<Rightarrow> (st1, ''Error clearing traffic: '' @ str_exc e)
           | Inr st2 \<Rightarrow> (st2, ''Mitmproxy traffic cleared'')))"

definition cleared_message :: string where
  "cleared_message = ''All captured requests have been cleared.''"

definition tool_clear_requests :: "arguments \<Rightarrow> store \<Rightarrow> string \<times> store" where
  "tool_clear_requests params st = (cleared_message, fst (clear_traffic st))"

section \<open>get_request_stats\<close>

text \<open>
  The three counting dictionaries keep their insertion order:
  \<open>d[k] = d.get(k, 0) + 1\<close> leaves an existing key in place and puts a new one last.
\<close>

fun bump :: "string \<Rightarrow> (string \<times> int) list \<Rightarrow> (string \<times> int) list" where
  "bump k [] = [(k, 1)]"
| "bump k ((k', c) # d) = (if k' = k then (k', c + 1) # d else (k', c) # bump k d)"

record stats =
  by_host :: "(string \<times> int) list"
  by_method :: "(string \<times> int) list"
  by_status :: "(string \<times> int) list"
  total_request_size :: int
  total_response_size :: int

definition stats_step :: "stats \<Rightarrow> index_entry \<Rightarrow> stats" where
  "stats_step s req =
     \<lparr>by_host = bump (get (ie_host req) ''unknown'') (by_host s),
      by_method = bump (get (ie_method req) ''unknown'') (by_method s),
      by_status = bump (str_int (get (ie_status_code req) 0 div 100) @ ''xx'') (by_status s),
      total_request_size = total_request_size s + get (ie_request_size req) 0,
      total_response_size = total_response_size s + get (ie_response_size req) 0\<rparr>"

definition stats_loop :: "index_entry list \<Rightarrow> stats" where
  "stats_loop requests =
     foldl stats_step
       \<lparr>by_host = [], by_method = [], by_status = [],
        total_request_size = 0, total_response_size = 0\<rparr> requests"

definition count_line :: "string \<times> int \<Rightarrow> string" where
  "count_line kc = ''  '' @ fst kc @ '': '' @ str_int (snd kc)"

text \<open>
  \<open>sorted(d.items(), key=lambda x: -x[1])\<close> is a stable sort, as \<^const>\<open>sort_key\<close> is;
  \<open>sorted(d.items())\<close> compares the pairs, strings by their characters' codes.
\<close>

definition tool_get_request_stats :: "arguments \<Rightarrow> store \<Rightarrow> py_error + string" where
  "tool_get_request_stats params st =
     and_then (read_index st) (\<lambda>index.
       let requests = get (d_requests index) [] in
       if requests = [] then Inr ''No requests captured yet.''
       else
         let s = stats_loop requests in
         Inr (join nl
           ([''=== Traffic Statistics ==='',
             ''Total Requests: '' @ str_nat (length requests),
             ''Total Request Data: '' @ format_comma (total_request_size s) @ '' bytes'',
             ''Total Response Data: '' @ format_comma (total_response_size s) @ '' bytes'',
             [],
             ''By Host (top 10):''] @
            map count_line (take 10 (sort_key (\<lambda>x. - snd x) (by_host s))) @
            [[], ''By Method:''] @
            map count_line (sort_key (\<lambda>x. - snd x) (by_method s)) @
            [[], ''By Status Code:''] @
            map count_line (sort (by_status s)))))"

section \<open>export_har\<close>

text \<open>The value handed to \<open>json.dumps\<close>.\<close>

datatype json =
    JNull
  | JInt int
  | JStr string
  | JArr "json list"
  | JObj "(string \<times> json) list"

definition har_headers :: "headers \<Rightarrow> json" where
  "har_headers hs = JArr (map (\<lambda>(k, v). JObj [(''name'', JStr k), (''value'', JStr v)]) hs)"

definition har_entry :: "doc \<Rightarrow> py_error + json" where
  "har_entry data =
     and_then (getitem ''request'' (d_request data)) (\<lambda>req.
     and_then (getitem ''response'' (d_response data)) (\<lambda>resp.
     and_then (getitem ''timestamp'' (d_timestamp data)) (\<lambda>ts.
     and_then (getitem ''method'' (rq_method req)) (\<lambda>m.
     and_then (getitem ''url'' (rq_url req)) (\<lambda>u.
     and_then (getitem ''headers'' (rq_headers req)) (\<lambda>qh.
     and_then (getitem ''content_length'' (rq_content_length req)) (\<lambda>qn.
     and_then (getitem ''content'' (rq_content req)) (\<lambda>qc.
     and_then (getitem ''status_code'' (rs_status_code resp)) (\<lambda>sc.
     and_then (getitem ''reason'' (rs_reason resp)) (\<lambda>r.
     and_then (getitem ''headers'' (rs_headers resp)) (\<lambda>sh.
     and_then (getitem ''content_length'' (rs_content_length resp)) (\<lambda>sn.
     and_then (getitem ''content'' (rs_content resp)) (\<lambda>c.
       Inr (JObj
         [(''startedDateTime'', JStr ts),
          (''request'', JObj
             [(''method'', JStr m),
              (''url'', JStr u),
              (''httpVersion'', JStr ''HTTP/1.1''),
              (''headers'', har_headers qh),
              (''queryString'', JArr []),
              (''bodySize'', JInt qn),
              (''postData'',
                 if qc \<noteq> [] then
                   JObj [(''mimeType'', JStr (get (map_of qh ''content-type'') [])),
                         (''text'', JStr qc)]
                 else JNull)]),
          (''response'', JObj
             [(''status'', JInt sc),
              (''statusText'', JStr r),
              (''httpVersion'', JStr ''HTTP/1.1''),
              (''headers'', har_headers sh),
              (''content'', JObj
                 [(''size'', JInt sn),
                  (''mimeType'', JStr (get (map_of sh ''content-type'') [])),
                  (''text'', JStr c)]),
              (''bodySize'', JInt sn)]),
          (''cache'', JObj []),
          (''timings'', JObj [(''wait'', JInt 0), (''receive'', JInt 0)])]))))))))))))))"

fun index_ids :: "index_entry list \<Rightarrow> py_error + string list" where
  "index_ids [] = Inr []"
| "index_ids (req # reqs) =
     and_then (getitem ''id'' (ie_id req)) (\<lambda>i.
     and_then (index_ids reqs) (\<lambda>is. Inr (i # is)))"

fun har_loop :: "store \<Rightarrow> string list \<Rightarrow> json list \<Rightarrow> py_error + json list" where
  "har_loop st [] entries = Inr entries"
| "har_loop st (req_id # ids) entries =
     and_then (read_request st req_id) (\<lambda>data.
       case data of
         None \<Rightarrow> har_loop st ids entries
       | Some d \<Rightarrow> and_then (har_entry d) (\<lambda>entry. har_loop st ids (entries @ [entry])))"

definition har_log :: "json list \<Rightarrow> json" where
  "har_log entries =
     JObj [(''log'', JObj
       [(''version'', JStr ''1.2''),
        (''creator'', JObj [(''name'', JStr ''mitmproxy-mcp''), (''version'', JStr ''1.0.0'')]),
        (''entries'', JArr entries)])]"

text \<open>
  A tool's result text is either written out or the \<open>json.dumps(v, indent=2)\<close> of a
  value, kept as that value.
\<close>

datatype tool_result = Text string | Json_dumps json

definition no_export_message :: string where
  "no_export_message = ''No requests to export.''"

definition tool_export_har :: "arguments \<Rightarrow> store \<Rightarrow> py_error + tool_result" where
  "tool_export_har params st =
     (let request_ids = get (a_request_ids params) [] in
      and_then (read_index st) (\<lambda>index.
      and_then (if request_ids = [] then index_ids (get (d_requests index) [])
                else Inr request_ids) (\<lambda>request_ids.
        if request_ids = [] then Inr (Text no_export_message)
        else and_then (har_loop st request_ids []) (\<lambda>entries.
               Inr (Json_dumps (har_log entries))))))"

section \<open>Dispatch\<close>

record call_params =
  cp_name :: "string option"
  cp_arguments :: "arguments option"

datatype 'i response = Result 'i tool_result | Error 'i int string

type_synonym handler = "arguments \<Rightarrow> store \<Rightarrow> (py_error + tool_result) \<times> store"

text \<open>A handler that only reads leaves the directory as it is.\<close>

definition reading :: "(arguments \<Rightarrow> store \<Rightarrow> py_error + string) \<Rightarrow> handler" where
  "reading tool params st =
     (case tool params st of Inl e \<Rightarrow> (Inl e, st) | Inr text \<Rightarrow> (Inr (Text text), st))"

definition handlers :: "(string \<times> handler) list" where
  "handlers =
     [(''list_requests'', reading tool_list_requests),
      (''read_request'', reading tool_read_request),
      (''search_requests'', reading tool_search_requests),
      (''clear_requests'', \<lambda>params st.
         case tool_clear_requests params st of (text, st') \<Rightarrow> (Inr (Text text), st')),
      (''get_request_stats'', reading tool_get_request_stats),
      (''export_har'', \<lambda>params st. (tool_export_har params st, st))]"

text \<open>\<open>str(tool_name)\<close>, where a missing name is \<open>None\<close>.\<close>

definition str_name :: "string option \<Rightarrow> string" where
  "str_name n = (case n of None \<Rightarrow> ''None'' | Some s \<Rightarrow> s)"

definition handle_tool_call :: "'i \<Rightarrow> call_params \<Rightarrow> store \<Rightarrow> 'i response \<times> store" where
  "handle_tool_call request_id params st =
     (let tool_name = cp_name params;
          tool_params = get (cp_arguments params) no_arguments
      in case (case tool_name of None \<Rightarrow> None | Some n \<Rightarrow> map_of handlers n) of
           None \<Rightarrow> (Error request_id (- 32601) (''Unknown tool: '' @ str_name tool_name), st)
         | Some handler \<Rightarrow>
             (case handler tool_params st of
                (Inr result, st') \<Rightarrow> (Result request_id result, st')
              | (Inl e, st') \<Rightarrow> (Error request_id (- 32603) (str_exc e), st')))"

section \<open>The capture addon\<close>

text \<open>
  What the addon reads from a completed flow: the fields of the request and of the
  response, \<open>dict(headers)\<close>, the value of \<open>headers.get("content-type", "")\<close> and the
  raw body, which may be \<open>None\<close>.
\<close>

record flow_request =
  fq_method :: string
  fq_pretty_url :: string
  fq_host :: string
  fq_port :: int
  fq_path :: string
  fq_scheme :: string
  fq_headers :: headers
  fq_content_type :: string
  fq_content :: "bytes option"

record flow_response =
  fp_status_code :: int
  fp_reason :: string
  fp_headers :: headers
  fp_content_type :: string
  fp_content :: "bytes option"

record flow =
  fl_request :: flow_request
  fl_response :: "flow_response option"

definition binary_types :: "string list" where
  "binary_types =
     [''image/'', ''audio/'', ''video/'', ''application/octet-stream'',
      ''application/pdf'', ''application/zip'', ''application/gzip'']"

definition is_binary :: "string \<Rightarrow> bool" where
  "is_binary content_type = list_ex (\<lambda>bt. sublist bt (lower content_type)) binary_types"

definition binary_placeholder :: "bytes \<Rightarrow> string \<Rightarrow> string" where
  "binary_placeholder content content_type =
     ''[Binary content: '' @ str_nat (length content) @ '' bytes, type: '' @ content_type @ '']''"

text \<open>\<open>content.decode('latin-1')\<close>: every byte is the character of that code.\<close>

definition latin1_decode :: "bytes \<Rightarrow> string" where
  "latin1_decode content = map (\<lambda>b. char_of (unat b)) content"

text \<open>
  \<open>_safe_decode\<close>. The strict decoder \<open>content.decode('utf-8')\<close> is the parameter
  \<open>utf8_decode\<close>, \<open>None\<close> where it raises \<open>UnicodeDecodeError\<close>. The Latin-1 decoder
  never raises, so the handler of its \<open>UnicodeDecodeError\<close> is not reached.
\<close>

definition safe_decode :: "(bytes \<Rightarrow> string option) \<Rightarrow> bytes option \<Rightarrow> string \<Rightarrow> string" where
  "safe_decode utf8_decode content content_type =
     (case content of
        None \<Rightarrow> []
      | Some c \<Rightarrow>
          if is_binary content_type then binary_placeholder c content_type
          else (case utf8_decode c of
                  Some text \<Rightarrow> text
                | None \<Rightarrow> latin1_decode c))"

text \<open>\<open>len(content) if content else 0\<close>.\<close>

definition content_length :: "bytes option \<Rightarrow> int" where
  "content_length content = (case content of None \<Rightarrow> 0 | Some c \<Rightarrow> int (length c))"

definition request_data ::
  "(bytes \<Rightarrow> string option) \<Rightarrow> string \<Rightarrow> string \<Rightarrow> flow_request \<Rightarrow> flow_response \<Rightarrow> doc" where
  "request_data utf8_decode request_id timestamp rq rs =
     \<lparr>d_requests = None,
      d_id = Some request_id,
      d_timestamp = Some timestamp,
      d_request = Some
        \<lparr>rq_method = Some (fq_method rq),
         rq_url = Some (fq_pretty_url rq),
         rq_host = Some (fq_host rq),
         rq_port = Some (fq_port rq),
         rq_path = Some (fq_path rq),
         rq_scheme = Some (fq_scheme rq),
         rq_headers = Some (fq_headers rq),
         rq_content = Some (safe_decode utf8_decode (fq_content rq) (fq_content_type rq)),
         rq_content_length = Some (content_length (fq_content rq))\<rparr>,
      d_response = Some
        \<lparr>rs_status_code = Some (fp_status_code rs),
         rs_reason = Some (fp_reason rs),
         rs_headers = Some (fp_headers rs),
         rs_content = Some (safe_decode utf8_decode (fp_content rs) (fp_content_type rs)),
         rs_content_length = Some (content_length (fp_content rs))\<rparr>\<rparr>"

definition index_entry_of :: "string \<Rightarrow> string \<Rightarrow> flow_request \<Rightarrow> flow_response \<Rightarrow> index_entry" where
  "index_entry_of request_id timestamp rq rs =
     \<lparr>ie_id = Some request_id,
      ie_timestamp = Some timestamp,
      ie_method = Some (fq_method rq),
      ie_url = Some (fq_pretty_url rq),
      ie_host = Some (fq_host rq),
      ie_status_code = Some (fp_status_code rs),
      ie_content_type = Some (fp_content_type rs),
      ie_request_size = Some (content_length (fq_content rq)),
      ie_response_size = Some (content_length (fp_content rs))\<rparr>"

text \<open>
  The hook \<open>response\<close> of \<open>TrafficCapture\<close>, given the identifier and the timestamp
  that \<open>_generate_id\<close> and the clock produce. The state is
  the addon's in-memory index and the directory; the result says which exception left
  the hook, if one did, and the state it left.
\<close>

definition response_hook ::
  "(bytes \<Rightarrow> string option) \<Rightarrow> string \<Rightarrow> string \<Rightarrow> flow \<Rightarrow> doc \<times> store
     \<Rightarrow> py_error option \<times> doc \<times> store" where
  "response_hook utf8_decode request_id timestamp fl s =
     (case fl_response fl of
        None \<Rightarrow> (None, s)
      | Some rs \<Rightarrow>
          (case write_file (request_file request_id)
                  (request_data utf8_decode request_id timestamp (fl_request fl) rs) (snd s) of
             Inl e \<Rightarrow> (Some e, s)
           | Inr st1 \<Rightarrow>
               (case d_requests (fst s) of
                  None \<Rightarrow> (Some (KeyError ''requests''), fst s, st1)
                | Some entries \<Rightarrow>
                    let index = (fst s)\<lparr>d_requests :=
                          Some (entries @ [index_entry_of request_id timestamp (fl_request fl) rs])\<rparr>
                    in (case write_file INDEX_NAME index st1 of
                          Inl e \<Rightarrow> (Some e, index, st1)
                        | Inr st2 \<Rightarrow> (None, index, st2)))))"

section \<open>Notions of the specification\<close>

text \<open>Case-insensitive occurrence of one string in another, and case-insensitive equality.\<close>

definition occurs :: "string \<Rightarrow> string \<Rightarrow> bool" where
  "occurs query text = sublist (lower query) (lower text)"

definition same_ignoring_case :: "string \<Rightarrow> string \<Rightarrow> bool" where
  "same_ignoring_case a b = (upper a = upper b)"

text \<open>A string filter is supplied when it is present and not empty.\<close>

definition supplied :: "string option \<Rightarrow> bool" where
  "supplied f = (f \<noteq> None \<and> f \<noteq> Some [])"


text \<open>The same, with a status filter of 0 counted as not supplied.\<close>

definition matches_filters :: "arguments \<Rightarrow> index_entry \<Rightarrow> bool" where
  "matches_filters params e =
     ((\<not> supplied (a_host_filter params) \<or>
         occurs (get (a_host_filter params) []) (get (ie_host e) [])) \<and>
      (\<not> supplied (a_method_filter params) \<or>
         same_ignoring_case (get (ie_method e) []) (get (a_method_filter params) [])) \<and>
      (a_status_filter params = None \<or> a_status_filter params = Some 0 \<or>
         ie_status_code e = a_status_filter params) \<and>
      (\<not> supplied (a_url_filter params) \<or>
         occurs (get (a_url_filter params) []) (get (ie_url e) [])))"

text \<open>The last \<open>limit\<close> elements when \<open>limit\<close> is positive, all of them otherwise.\<close>

definition most_recent :: "int \<Rightarrow> 'a list \<Rightarrow> 'a list" where
  "most_recent limit xs = (if limit > 0 then rev (take (nat limit) (rev xs)) else xs)"


definition selected :: "arguments \<Rightarrow> index_entry list \<Rightarrow> index_entry list" where
  "selected params requests =
     most_recent (get (a_limit params) 100) (filter (matches_filters params) requests)"




section \<open>Concrete inputs\<close>

definition example_entry :: "string \<Rightarrow> string \<Rightarrow> int \<Rightarrow> index_entry" where
  "example_entry i host status =
     \<lparr>ie_id = Some i, ie_timestamp = Some ''2024-01-01T00:00:00'', ie_method = Some ''GET'',
      ie_url = Some (''http://'' @ host @ ''/''), ie_host = Some host,
      ie_status_code = Some status, ie_content_type = Some ''text/plain'',
      ie_request_size = Some 0, ie_response_size = Some 5\<rparr>"

definition example_requests :: "index_entry list" where
  "example_requests =
     [example_entry ''a'' ''example.com'' 200, example_entry ''b'' ''other.org'' 200,
      example_entry ''c'' ''api.Example.com'' 404, example_entry ''d'' ''www.example.com'' 200]"

definition example_filters :: arguments where
  "example_filters = no_arguments\<lparr>a_limit := Some 1, a_host_filter := Some ''EXAMPLE'',
     a_status_filter := Some 200\<rparr>"

definition index_of :: "index_entry list \<Rightarrow> doc" where
  "index_of requests = empty_doc\<lparr>d_requests := Some requests\<rparr>"

text \<open>An index file whose bytes are not text: the single byte \<open>0xff\<close>.\<close>

definition codec_message :: string where
  "codec_message =
     [CHR 0x27] @ ''utf-8'' @ [CHR 0x27] @
     '' codec can'' @ [CHR 0x27] @ ''t decode byte 0xff in position 0: invalid start byte''"

definition undecodable_index :: store where
  "undecodable_index = [(''index.json'', File (Undecodable codec_message))]"

definition undecodable_record :: store where
  "undecodable_record =
     [(''index.json'', File (Json (index_of [example_entry ''a'' ''example.com'' 200]))),
      (''a.json'', File (Undecodable codec_message))]"

definition call :: "string \<Rightarrow> arguments \<Rightarrow> call_params" where
  "call name params = \<lparr>cp_name = Some name, cp_arguments = Some params\<rparr>"

text \<open>A record file that has every key the program reads.\<close>

definition complete_record :: "doc \<Rightarrow> bool" where
  "complete_record d =
     (case (d_request d, d_response d) of
        (Some rq, Some rs) \<Rightarrow>
          d_id d \<noteq> None \<and> d_timestamp d \<noteq> None \<and>
          rq_method rq \<noteq> None \<and> rq_url rq \<noteq> None \<and> rq_host rq \<noteq> None \<and>
          rq_port rq \<noteq> None \<and> rq_scheme rq \<noteq> None \<and> rq_headers rq \<noteq> None \<and>
          rq_content rq \<noteq> None \<and> rq_content_length rq \<noteq> None \<and>
          rs_status_code rs \<noteq> None \<and> rs_reason rs \<noteq> None \<and> rs_headers rs \<noteq> None \<and>
          rs_content rs \<noteq> None \<and> rs_content_length rs \<noteq> None
      | _ \<Rightarrow> False)"

definition is_structured_error :: "'i response \<Rightarrow> bool" where
  "is_structured_error r = (case r of Error i code msg \<Rightarrow> True | Result i text \<Rightarrow> False)"

definition big_body :: string where
  "big_body = replicate 50001 (CHR ''x'')"

definition example_request_part :: "string \<Rightarrow> request_part" where
  "example_request_part body =
     \<lparr>rq_method = Some ''POST'', rq_url = Some ''http://example.com/form'',
      rq_host = Some ''example.com'', rq_port = Some 80, rq_path = Some ''/form'',
      rq_scheme = Some ''http'', rq_headers = Some [(''Content-Type'', ''text/plain'')],
      rq_content = Some body, rq_content_length = Some (int (length body))\<rparr>"

definition example_response_part :: "string \<Rightarrow> response_part" where
  "example_response_part body =
     \<lparr>rs_status_code = Some 200, rs_reason = Some ''OK'',
      rs_headers = Some [(''Server'', ''nginx'')],
      rs_content = Some body, rs_content_length = Some (int (length body))\<rparr>"

definition example_record :: "string \<Rightarrow> string \<Rightarrow> string \<Rightarrow> doc" where
  "example_record i req_body resp_body =
     \<lparr>d_requests = None, d_id = Some i, d_timestamp = Some ''2024-01-01T00:00:00'',
      d_request = Some (example_request_part req_body),
      d_response = Some (example_response_part resp_body)\<rparr>"




definition small_store :: store where
  "small_store =
     [(''index.json'', File (Json (index_of [example_entry ''a'' ''example.com'' 200]))),
      (''a.json'', File (Json (example_record ''a'' ''name=Foo'' ''hello''))),
      (''notes.txt'', File Malformed)]"



section \<open>What an export and a search select\<close>

text \<open>An identifier resolves when its record file is read as a document.\<close>

definition resolves :: "store \<Rightarrow> string \<Rightarrow> bool" where
  "resolves st i = (case read_request st i of Inr (Some d) \<Rightarrow> True | _ \<Rightarrow> False)"

text \<open>
  An identifier can be exported when its record file is missing or unreadable as JSON,
  or holds a complete record.
\<close>

definition exportable :: "store \<Rightarrow> string \<Rightarrow> bool" where
  "exportable st i =
     (case read_request st i of
        Inl e \<Rightarrow> False
      | Inr None \<Rightarrow> True
      | Inr (Some d) \<Rightarrow> complete_record d)"

definition exported_entry :: "store \<Rightarrow> string \<Rightarrow> json option" where
  "exported_entry st i =
     (case read_request st i of
        Inr (Some d) \<Rightarrow> (case har_entry d of Inr entry \<Rightarrow> Some entry | Inl e \<Rightarrow> None)
      | _ \<Rightarrow> None)"

definition exported :: "store \<Rightarrow> string list \<Rightarrow> json list" where
  "exported st ids = List.map_filter (exported_entry st) ids"




section \<open>More concrete inputs\<close>

definition stale_store :: store where
  "stale_store = [(''index.json'', File (Json (index_of [example_entry ''a'' ''example.com'' 200])))]"


text \<open>
  A stand-in for the strict UTF-8 decoder that agrees with it on byte strings below
  \<open>0x80\<close>, the only ones the concrete inputs hold: each byte is its own character.
\<close>

definition utf8_decode_ascii :: "bytes \<Rightarrow> string option" where
  "utf8_decode_ascii c =
     (if list_all (\<lambda>b. b < 128) c then Some (map (\<lambda>b. char_of (unat b)) c) else None)"

definition timestamp0 :: string where
  "timestamp0 = ''2024-01-01T00:00:00''"

definition big_flow :: flow where
  "big_flow =
     \<lparr>fl_request =
        \<lparr>fq_method = ''GET'', fq_pretty_url = ''http://example.com/'', fq_host = ''example.com'',
         fq_port = 80, fq_path = ''/'', fq_scheme = ''http'', fq_headers = [],
         fq_content_type = [], fq_content = None\<rparr>,
      fl_response = Some
        \<lparr>fp_status_code = 200, fp_reason = ''OK'',
         fp_headers = [(''Content-Type'', ''text/plain'')],
         fp_content_type = ''text/plain'', fp_content = Some (replicate 50001 0x78)\<rparr>\<rparr>"

definition big_store_after :: store where
  "big_store_after =
     snd (snd (response_hook utf8_decode_ascii ''a'' timestamp0 big_flow (empty_index, [])))"

definition small_flow :: flow where
  "small_flow =
     \<lparr>fl_request =
        \<lparr>fq_method = ''POST'', fq_pretty_url = ''http://example.com/up'', fq_host = ''example.com'',
         fq_port = 80, fq_path = ''/up'', fq_scheme = ''http'',
         fq_headers = [(''Content-Type'', ''text/plain'')],
         fq_content_type = ''text/plain'', fq_content = Some [0x68, 0x69]\<rparr>,
      fl_response = Some
        \<lparr>fp_status_code = 200, fp_reason = ''OK'',
         fp_headers = [(''Content-Type'', ''Image/PNG'')],
         fp_content_type = ''Image/PNG'', fp_content = Some [0x89, 0x50]\<rparr>\<rparr>"

definition small_store_after :: store where
  "small_store_after =
     snd (snd (response_hook utf8_decode_ascii ''a'' timestamp0 small_flow (empty_index, [])))"

section \<open>Properties\<close>

subsection \<open>Auxiliary facts\<close>

lemmas case_mapping =
  lower_def upper_def char_lower_def char_upper_def upper_letters_def lower_letters_def

lemma lower_Nil_iff: "lower s = [] \<longleftrightarrow> s = []"
  by (simp add: lower_def)

lemma upper_Nil_iff: "upper s = [] \<longleftrightarrow> s = []"
  by (simp add: upper_def)

lemma supplied_iff: "supplied f \<longleftrightarrow> get f [] \<noteq> []"
  by (cases f) (auto simp: supplied_def get_def)

lemma truthy_int_iff: "truthy_int sf \<longleftrightarrow> sf \<noteq> None \<and> sf \<noteq> Some 0"
  by (cases sf) auto

subsection \<open>The listing\<close>

text \<open>The loop appends, in order, the entries that pass none of its four \<open>continue\<close>s.\<close>

lemma filter_loop_filter:
  "filter_loop hf mf sf uf requests filtered =
     filtered @ filter (\<lambda>req.
        \<not> (hf \<noteq> [] \<and> \<not> sublist hf (lower (get (ie_host req) []))) \<and>
        \<not> (mf \<noteq> [] \<and> upper (get (ie_method req) []) \<noteq> mf) \<and>
        \<not> (truthy_int sf \<and> ie_status_code req \<noteq> sf) \<and>
        \<not> (uf \<noteq> [] \<and> \<not> sublist uf (lower (get (ie_url req) [])))) requests"
  by (induction requests arbitrary: filtered) auto

lemma apply_limit_most_recent: "apply_limit limit xs = most_recent limit xs"
  by (simp add: apply_limit_def most_recent_def take_rev)

lemma filter_loop_matches:
  "filter_loop (lower (get (a_host_filter p) [])) (upper (get (a_method_filter p) []))
     (a_status_filter p) (lower (get (a_url_filter p) [])) requests [] =
   filter (matches_filters p) requests"
  unfolding filter_loop_filter append_Nil
  by (rule filter_cong)
     (auto simp: matches_filters_def supplied_iff occurs_def same_ignoring_case_def
        lower_Nil_iff upper_Nil_iff truthy_int_iff)

lemma list_select_selected: "list_select params requests = selected params requests"
  by (simp add: list_select_def selected_def Let_def filter_loop_matches
      apply_limit_most_recent)




text \<open>
  C9. A status filter of 0 gives the result of an absent status filter: no status
  filter is applied. A status filter that is applied is not 0, so it never selects an
  entry whose status code is 0.
\<close>

theorem list_requests_status_zero_is_absent:
  "tool_list_requests (params\<lparr>a_status_filter := Some 0\<rparr>) st =
     tool_list_requests (params\<lparr>a_status_filter := None\<rparr>) st \<and>
   (n \<noteq> 0 \<longrightarrow> ie_status_code e = Some 0 \<longrightarrow>
      e \<notin> set (list_select (params\<lparr>a_status_filter := Some n\<rparr>) requests))"
proof -
  have "filter_loop hf mf (Some 0) uf rs acc = filter_loop hf mf None uf rs acc"
    for hf mf uf rs acc
    by (simp add: filter_loop_filter)
  then have same: "tool_list_requests (params\<lparr>a_status_filter := Some 0\<rparr>) st =
     tool_list_requests (params\<lparr>a_status_filter := None\<rparr>) st"
    by (simp add: tool_list_requests_def list_select_def)
  have "e \<notin> set (list_select (params\<lparr>a_status_filter := Some n\<rparr>) requests)"
    if "n \<noteq> 0" "ie_status_code e = Some 0"
  proof
    assume "e \<in> set (list_select (params\<lparr>a_status_filter := Some n\<rparr>) requests)"
    then have "e \<in> set (filter (matches_filters (params\<lparr>a_status_filter := Some n\<rparr>)) requests)"
      unfolding list_select_selected selected_def most_recent_def
      by (auto split: if_splits dest: in_set_takeD)
    with that show False
      by (auto simp: matches_filters_def)
  qed
  with same show ?thesis by blast
qed

theorem list_requests_status_zero_is_absent_witness:
  "tool_list_requests (example_filters\<lparr>a_status_filter := Some 0\<rparr>)
     [(''index.json'', File (Json (index_of example_requests)))] =
   tool_list_requests (example_filters\<lparr>a_status_filter := None\<rparr>)
     [(''index.json'', File (Json (index_of example_requests)))] \<and>
   example_entry ''z'' ''example.com'' 0 \<notin>
     set (list_select (example_filters\<lparr>a_status_filter := Some 200\<rparr>)
            [example_entry ''z'' ''example.com'' 0])"
  using list_requests_status_zero_is_absent
    [of example_filters "[(''index.json'', File (Json (index_of example_requests)))]"
        200 "example_entry ''z'' ''example.com'' 0" "[example_entry ''z'' ''example.com'' 0]"]
  by (simp add: example_entry_def)

subsection \<open>Reading the directory\<close>

lemma read_index_degrades:
  "map_of st INDEX_NAME = None \<or> map_of st INDEX_NAME = Some Directory \<or>
   map_of st INDEX_NAME = Some (File Malformed) \<Longrightarrow> read_index st = Inr empty_index"
  by (auto simp: read_index_def)

lemma read_index_parsed:
  "map_of st INDEX_NAME = Some (File (Json d)) \<Longrightarrow> read_index st = Inr d"
  by (simp add: read_index_def)

lemma read_request_degrades:
  "map_of st (request_file i) = None \<or> map_of st (request_file i) = Some Directory \<or>
   map_of st (request_file i) = Some (File Malformed) \<Longrightarrow> read_request st i = Inr None"
  by (auto simp: read_request_def)

lemma read_request_parsed:
  "map_of st (request_file i) = Some (File (Json d)) \<Longrightarrow> read_request st i = Inr (Some d)"
  by (simp add: read_request_def)

text \<open>
  C3 does not hold of the program. An index file, or a record file, whose bytes are
  not text makes \<open>json.load\<close> raise \<open>UnicodeDecodeError\<close>, which neither
  \<open>read_index\<close> nor \<open>read_request\<close> catches: the read raises, and the listing, the
  search and the reading of that record end as internal errors of the dispatcher.
\<close>

theorem read_raises_on_undecodable_file:
  "read_index undecodable_index = Inl (UnicodeDecodeError codec_message) \<and>
   read_request undecodable_record ''a'' = Inl (UnicodeDecodeError codec_message) \<and>
   fst (handle_tool_call (1 :: nat) (call ''list_requests'' no_arguments) undecodable_index) =
     Error 1 (- 32603) codec_message \<and>
   fst (handle_tool_call (1 :: nat) (call ''read_request'' (no_arguments\<lparr>a_request_id := Some ''a''\<rparr>))
          undecodable_record) = Error 1 (- 32603) codec_message \<and>
   fst (handle_tool_call (1 :: nat) (call ''search_requests'' (no_arguments\<lparr>a_query := Some ''x''\<rparr>))
          undecodable_record) = Error 1 (- 32603) codec_message"
  by (simp add: read_index_def read_request_def undecodable_index_def undecodable_record_def
      INDEX_NAME_def request_file_def handle_tool_call_def call_def handlers_def reading_def
      tool_list_requests_def tool_read_request_def tool_search_requests_def get_def getitem_def
      no_arguments_def index_of_def empty_doc_def example_entry_def case_mapping)

subsection \<open>Reading one record\<close>


lemma getitem_Some: "getitem k (Some x) = Inr x"
  by (simp add: getitem_def)




subsection \<open>Input errors\<close>

text \<open>
  C7, as the specification states it, fails: \<open>read_request\<close> without \<open>request_id\<close> and
  \<open>search_requests\<close> without \<open>query\<close> give a successful textual result, not a
  structured error.
\<close>

theorem missing_parameter_counterexample:
  "\<not> is_structured_error
       (fst (handle_tool_call (7 :: nat) (call ''read_request'' no_arguments) [])) \<and>
   \<not> is_structured_error
       (fst (handle_tool_call (7 :: nat) (call ''search_requests'' no_arguments) []))"
  by (simp add: is_structured_error_def handle_tool_call_def call_def handlers_def reading_def
      get_def tool_read_request_def tool_search_requests_def no_arguments_def lower_def)

text \<open>
  C7 (amended). A call that names an unknown tool yields the structured error -32601
  whose message ends with the tool's name. A call of \<open>read_request\<close> without
  \<open>request_id\<close>, or of \<open>search_requests\<close> without \<open>query\<close>, yields a successful
  textual result, the text \<open>Error: request_id is required\<close> or
  \<open>Error: query is required\<close>, which names the parameter.
\<close>

theorem input_errors:
  "(n \<notin> fst ` set handlers \<longrightarrow>
      handle_tool_call rid \<lparr>cp_name = Some n, cp_arguments = a\<rparr> st =
        (Error rid (- 32601) (''Unknown tool: '' @ n), st)) \<and>
   (a_request_id params = None \<longrightarrow>
      handle_tool_call rid (call ''read_request'' params) st =
        (Result rid (Text request_id_required), st)) \<and>
   (a_query params = None \<longrightarrow>
      handle_tool_call rid (call ''search_requests'' params) st =
        (Result rid (Text query_required), st)) \<and>
   sublist ''request_id'' request_id_required \<and> sublist ''query'' query_required"
proof -
  have "map_of handlers n = None" if "n \<notin> fst ` set handlers"
    using that by (simp add: map_of_eq_None_iff)
  then have unknown: "n \<notin> fst ` set handlers \<longrightarrow>
      handle_tool_call rid \<lparr>cp_name = Some n, cp_arguments = a\<rparr> st =
        (Error rid (- 32601) (''Unknown tool: '' @ n), st)"
    by (simp add: handle_tool_call_def str_name_def)
  have rd: "a_request_id params = None \<longrightarrow>
      handle_tool_call rid (call ''read_request'' params) st =
        (Result rid (Text request_id_required), st)"
    by (simp add: handle_tool_call_def call_def handlers_def reading_def get_def
        tool_read_request_def)
  have sr: "a_query params = None \<longrightarrow>
      handle_tool_call rid (call ''search_requests'' params) st =
        (Result rid (Text query_required), st)"
    by (simp add: handle_tool_call_def call_def handlers_def reading_def get_def
        tool_search_requests_def lower_def)
  have "sublist ''request_id'' request_id_required"
    by (simp add: request_id_required_def sublist_code)
  moreover have "sublist ''query'' query_required"
    by (simp add: query_required_def sublist_code)
  ultimately show ?thesis using unknown rd sr by blast
qed

theorem input_errors_witness:
  "handle_tool_call (7 :: nat) \<lparr>cp_name = Some ''delete_all'', cp_arguments = None\<rparr> [] =
     (Error 7 (- 32601) ''Unknown tool: delete_all'', []) \<and>
   handle_tool_call (7 :: nat) (call ''read_request'' no_arguments) [] =
     (Result 7 (Text ''Error: request_id is required''), []) \<and>
   handle_tool_call (7 :: nat) (call ''search_requests'' no_arguments) [] =
     (Result 7 (Text ''Error: query is required''), [])"
  using input_errors [of "''delete_all''" "7 :: nat" None "[]" no_arguments]
  by (simp add: handlers_def no_arguments_def request_id_required_def query_required_def)

subsection \<open>Clearing\<close>





lemma map_of_replace:
  "map_of xs k \<noteq> None \<Longrightarrow>
   map_of (map (\<lambda>(k', n). if k' = k then (k', v) else (k', n)) xs) k = Some v"
  by (induction xs) (auto split: if_splits)






subsection \<open>Determinism\<close>






subsection \<open>Export\<close>

lemma har_entry_complete:
  assumes "complete_record d"
  shows "\<exists>entry. har_entry d = Inr entry"
proof -
  from assms obtain rq rs where rq: "d_request d = Some rq" and rs: "d_response d = Some rs"
    by (cases "d_request d"; cases "d_response d") (simp_all add: complete_record_def)
  with assms have f: "d_timestamp d \<noteq> None"
      "rq_method rq \<noteq> None" "rq_url rq \<noteq> None" "rq_headers rq \<noteq> None"
      "rq_content rq \<noteq> None" "rq_content_length rq \<noteq> None"
      "rs_status_code rs \<noteq> None" "rs_reason rs \<noteq> None" "rs_headers rs \<noteq> None"
      "rs_content rs \<noteq> None" "rs_content_length rs \<noteq> None"
    by (simp_all add: complete_record_def)
  with rq rs show ?thesis
    by (auto simp: har_entry_def getitem_Some)
qed

lemma index_ids_length: "index_ids requests = Inr ids \<Longrightarrow> length ids = length requests"
proof (induction requests arbitrary: ids)
  case Nil
  then show ?case by auto
next
  case (Cons req requests)
  then obtain i rest where "ie_id req = Some i" "index_ids requests = Inr rest" "ids = i # rest"
    by (cases "ie_id req"; cases "index_ids requests") (auto simp: getitem_def)
  with Cons.IH show ?case by simp
qed

lemma har_loop_exported:
  "\<forall>i\<in>set ids. exportable st i \<Longrightarrow> har_loop st ids acc = Inr (acc @ exported st ids)"
proof (induction ids arbitrary: acc)
  case Nil
  then show ?case by (simp add: exported_def List.map_filter_simps)
next
  case (Cons i ids)
  from Cons.prems have rest: "\<forall>i\<in>set ids. exportable st i" and this_one: "exportable st i"
    by simp_all
  note IH = Cons.IH [OF rest]
  show ?case
  proof (cases "read_request st i")
    case (Inl e)
    with this_one show ?thesis by (simp add: exportable_def)
  next
    case (Inr data)
    show ?thesis
    proof (cases data)
      case None
      with Inr IH show ?thesis
        by (simp add: exported_def exported_entry_def List.map_filter_simps)
    next
      case (Some d)
      with Inr this_one have "complete_record d" by (simp add: exportable_def)
      then obtain entry where "har_entry d = Inr entry" using har_entry_complete by blast
      with Some Inr IH show ?thesis
        by (simp add: exported_def exported_entry_def List.map_filter_simps)
    qed
  qed
qed

lemma length_exported:
  "\<forall>i\<in>set ids. exportable st i \<Longrightarrow>
   length (exported st ids) = length (filter (resolves st) ids)"
proof (induction ids)
  case Nil
  then show ?case by (simp add: exported_def List.map_filter_simps)
next
  case (Cons i ids)
  then have IH: "length (exported st ids) = length (filter (resolves st) ids)"
    and this_one: "exportable st i" by simp_all
  have "(exported_entry st i = None \<and> \<not> resolves st i) \<or>
        ((\<exists>entry. exported_entry st i = Some entry) \<and> resolves st i)"
  proof (cases "read_request st i")
    case (Inl e)
    with this_one show ?thesis by (simp add: exportable_def)
  next
    case (Inr data)
    show ?thesis
    proof (cases data)
      case None
      with Inr show ?thesis by (simp add: exported_entry_def resolves_def)
    next
      case (Some d)
      with Inr this_one have "complete_record d" by (simp add: exportable_def)
      then obtain entry where "har_entry d = Inr entry" using har_entry_complete by blast
      with Some Inr show ?thesis by (simp add: exported_entry_def resolves_def)
    qed
  qed
  with IH show ?case
    by (auto simp: exported_def List.map_filter_simps)
qed

text \<open>
  C5, as the specification states it, fails: when identifiers are supplied and none of
  them resolves, or when the index lists an identifier whose record file is gone, the
  result is a HAR document with no entries, not the text \<open>No requests to export.\<close>
\<close>

theorem export_har_unresolved_counterexample:
  "tool_export_har (no_arguments\<lparr>a_request_ids := Some [''missing'']\<rparr>) [] =
     Inr (Json_dumps (har_log [])) \<and>
   tool_export_har no_arguments stale_store = Inr (Json_dumps (har_log []))"
  by (simp add: tool_export_har_def read_index_def read_request_def stale_store_def
      INDEX_NAME_def request_file_def get_def getitem_def no_arguments_def index_of_def
      empty_doc_def empty_index_def example_entry_def)

text \<open>
  C5 (amended). \<open>export_har\<close> processes the supplied identifiers, or every identifier
  of the index when none is supplied. When there is no identifier to process the result
  is the text \<open>No requests to export.\<close>; otherwise it is a HAR document of version 1.2
  with the fixed creator, whose entries are those of the identifiers that resolve, in
  the order processed, the others being skipped: as many entries as identifiers that
  resolve, hence as many as index entries when every one of them resolves, and none
  when none resolves.
\<close>

theorem export_har_entries:
  assumes "read_index st = Inr index"
    and "index_ids (get (d_requests index) []) = Inr stored"
    and "ids = (if get (a_request_ids params) [] = [] then stored
                else get (a_request_ids params) [])"
    and "\<forall>i\<in>set ids. exportable st i"
  shows "tool_export_har params st =
           (if ids = [] then Inr (Text no_export_message)
            else Inr (Json_dumps (har_log (exported st ids)))) \<and>
         har_log (exported st ids) =
           JObj [(''log'', JObj
             [(''version'', JStr ''1.2''),
              (''creator'', JObj [(''name'', JStr ''mitmproxy-mcp''), (''version'', JStr ''1.0.0'')]),
              (''entries'', JArr (exported st ids))])] \<and>
         length (exported st ids) = length (filter (resolves st) ids) \<and>
         ((\<forall>i\<in>set ids. resolves st i) \<longrightarrow> length (exported st ids) = length ids) \<and>
         (get (a_request_ids params) [] = [] \<longrightarrow> length ids = length (get (d_requests index) []))"
proof -
  have tool: "tool_export_har params st =
           (if ids = [] then Inr (Text no_export_message)
            else Inr (Json_dumps (har_log (exported st ids))))"
    using assms(1,2,3) har_loop_exported [OF assms(4), of "[]"]
    by (cases "get (a_request_ids params) [] = []") (simp_all add: tool_export_har_def Let_def)
  have len: "length (exported st ids) = length (filter (resolves st) ids)"
    using assms(4) by (rule length_exported)
  have "length (filter (resolves st) ids) = length ids" if "\<forall>i\<in>set ids. resolves st i"
    using that by simp
  moreover have "length ids = length (get (d_requests index) [])"
    if "get (a_request_ids params) [] = []"
    using that assms(2,3) by (simp add: index_ids_length)
  ultimately show ?thesis using tool len by (simp add: har_log_def)
qed

theorem export_har_entries_witness:
  "tool_export_har no_arguments small_store =
     Inr (Json_dumps (har_log (exported small_store [''a'']))) \<and>
   length (exported small_store [''a'']) = 1 \<and>
   tool_export_har (no_arguments\<lparr>a_request_ids := Some [''missing'', ''a'']\<rparr>) small_store =
     Inr (Json_dumps (har_log (exported small_store [''missing'', ''a'']))) \<and>
   length (exported small_store [''missing'', ''a'']) = 1"
proof -
  let ?index = "index_of [example_entry ''a'' ''example.com'' 200]"
  have ri: "read_index small_store = Inr ?index"
    by (simp add: read_index_def small_store_def INDEX_NAME_def)
  have ii: "index_ids (get (d_requests ?index) []) = Inr [''a'']"
    by (simp add: index_of_def empty_doc_def get_def example_entry_def getitem_def)
  have ra: "read_request small_store ''a'' = Inr (Some (example_record ''a'' ''name=Foo'' ''hello''))"
    by (simp add: read_request_def small_store_def request_file_def)
  have rm: "read_request small_store ''missing'' = Inr None"
    by (simp add: read_request_def small_store_def request_file_def)
  have cr: "complete_record (example_record ''a'' ''name=Foo'' ''hello'')"
    by (simp add: complete_record_def example_record_def example_request_part_def
        example_response_part_def)
  have ea: "exportable small_store ''a''" and em: "exportable small_store ''missing''"
    by (simp_all add: exportable_def ra rm cr)
  have sa: "resolves small_store ''a''" and sm: "\<not> resolves small_store ''missing''"
    by (simp_all add: resolves_def ra rm)
  have one: "tool_export_har no_arguments small_store =
       Inr (Json_dumps (har_log (exported small_store [''a'']))) \<and>
     length (exported small_store [''a'']) = 1"
    using export_har_entries [of small_store ?index "[''a'']" "[''a'']" no_arguments, OF ri ii] ea sa
    by (simp add: no_arguments_def get_def)
  have two: "tool_export_har (no_arguments\<lparr>a_request_ids := Some [''missing'', ''a'']\<rparr>) small_store =
       Inr (Json_dumps (har_log (exported small_store [''missing'', ''a'']))) \<and>
     length (exported small_store [''missing'', ''a'']) = 1"
    using export_har_entries [of small_store ?index "[''a'']" "[''missing'', ''a'']"
        "no_arguments\<lparr>a_request_ids := Some [''missing'', ''a'']\<rparr>", OF ri ii] ea em sa sm
    by (simp add: get_def)
  from one two show ?thesis by simp
qed

subsection \<open>Search\<close>







subsection \<open>The record codec\<close>

lemma write_file_same:
  "write_file name d st = Inr st' \<Longrightarrow> map_of st' name = Some (File (Json d))"
  by (auto simp: write_file_def map_add_def map_of_replace
      split: option.splits node.splits)

lemma map_of_replace_other:
  "k \<noteq> name \<Longrightarrow>
   map_of (map (\<lambda>(k', n). if k' = name then (k', v) else (k', n)) xs) k = map_of xs k"
  by (induction xs) auto

lemma write_file_other:
  "write_file name d st = Inr st' \<Longrightarrow> k \<noteq> name \<Longrightarrow> map_of st' k = map_of st k"
  by (auto simp: write_file_def map_add_def map_of_replace_other
      split: option.splits node.splits)

lemma hook_stores_record:
  assumes "fl_response fl = Some rs"
    and "response_hook utf8 i ts fl (index, st) = (None, index', st')"
    and "i \<noteq> ''index''"
  shows "read_request st' i = Inr (Some (request_data utf8 i ts (fl_request fl) rs))"
proof -
  let ?d = "request_data utf8 i ts (fl_request fl) rs"
  from assms(1,2) obtain st1 ix where
    w1: "write_file (request_file i) ?d st = Inr st1" and
    w2: "write_file INDEX_NAME ix st1 = Inr st'"
    by (auto simp: response_hook_def Let_def split: sum.splits option.splits)
  from assms(3) have ne: "request_file i \<noteq> INDEX_NAME"
    by (simp add: request_file_def INDEX_NAME_def)
  from write_file_other [OF w2 ne] write_file_same [OF w1]
  have "map_of st' (request_file i) = Some (File (Json ?d))" by simp
  then show ?thesis by (simp add: read_request_def)
qed

lemma record_lines_request_data:
  "\<exists>ls. record_lines (request_data utf8 i ts rq rs) = Inr ls \<and>
     (safe_decode utf8 (fq_content rq) (fq_content_type rq) \<noteq> [] \<longrightarrow>
        safe_decode utf8 (fq_content rq) (fq_content_type rq) \<in> set ls) \<and>
     (safe_decode utf8 (fp_content rs) (fp_content_type rs) \<noteq> [] \<longrightarrow>
        rendered_body (safe_decode utf8 (fp_content rs) (fp_content_type rs)) \<in> set ls)"
  by (simp add: record_lines_def request_lines_def response_lines_def request_data_def
      getitem_Some)

lemma not_binary_text_plain: "\<not> is_binary ''text/plain''"
  by (simp add: is_binary_def binary_types_def case_mapping sublist_code)

lemma binary_image_png: "is_binary ''Image/PNG''"
  by (simp add: is_binary_def binary_types_def case_mapping sublist_code)

lemma char_of_120: "char_of (120 :: nat) = CHR ''x''"
  by code_simp

lemma decode_big: "utf8_decode_ascii (replicate 50001 0x78) = Some big_body"
  by (simp add: utf8_decode_ascii_def big_body_def list_all_iff char_of_120)

lemma decode_hi: "utf8_decode_ascii [0x68, 0x69] = Some ''hi''"
  by code_simp

text \<open>
  C4, as the specification states it, fails: a response body of 50001 characters \<open>x\<close>,
  declared \<open>text/plain\<close>, is stored in full, and \<open>read_request\<close> gives back its first
  50000 characters and the truncation marker, which is not the original text.
\<close>

theorem long_body_counterexample:
  "fst (response_hook utf8_decode_ascii ''a'' timestamp0 big_flow (empty_index, [])) = None \<and>
   \<not> is_binary ''text/plain'' \<and>
   utf8_decode_ascii (replicate 50001 0x78) = Some big_body \<and>
   tool_read_request (no_arguments\<lparr>a_request_id := Some ''a''\<rparr>) big_store_after =
     Inr (join nl
       [''=== REQUEST a ==='', ''Timestamp: 2024-01-01T00:00:00'', [],
        ''--- REQUEST ---'', ''GET http://example.com/'', ''Host: example.com:80'',
        ''Scheme: http'', [], ''Request Headers:'', [], ''Request Body: (empty)'', [],
        ''--- RESPONSE ---'', ''Status: 200 OK'', [], ''Response Headers:'',
        ''  Content-Type: text/plain'', [], ''Response Body (50001 bytes):'',
        replicate 50000 (CHR ''x'') @ truncation_marker big_body]) \<and>
   replicate 50000 (CHR ''x'') @ truncation_marker big_body \<noteq> big_body"
proof -
  let ?rs = "the (fl_response big_flow)"
  let ?d = "request_data utf8_decode_ascii ''a'' timestamp0 (fl_request big_flow) ?rs"
  have hook: "response_hook utf8_decode_ascii ''a'' timestamp0 big_flow (empty_index, []) =
      (None, empty_index\<lparr>d_requests :=
          Some [index_entry_of ''a'' timestamp0 (fl_request big_flow) ?rs]\<rparr>,
       [(''a.json'', File (Json ?d)),
        (''index.json'', File (Json (empty_index\<lparr>d_requests :=
          Some [index_entry_of ''a'' timestamp0 (fl_request big_flow) ?rs]\<rparr>)))])"
    by (simp add: response_hook_def big_flow_def write_file_def request_file_def INDEX_NAME_def
        empty_index_def empty_doc_def Let_def)
  then have st: "big_store_after =
       [(''a.json'', File (Json ?d)),
        (''index.json'', File (Json (empty_index\<lparr>d_requests :=
          Some [index_entry_of ''a'' timestamp0 (fl_request big_flow) ?rs]\<rparr>)))]"
    by (simp add: big_store_after_def)
  have rr: "read_request big_store_after ''a'' = Inr (Some ?d)"
    by (simp add: st read_request_def request_file_def)
  have body: "safe_decode utf8_decode_ascii (Some (replicate 50001 0x78)) ''text/plain'' = big_body"
    by (simp add: safe_decode_def not_binary_text_plain decode_big)
  have len: "length big_body = 50001" and ne: "big_body \<noteq> []"
    by (simp_all add: big_body_def)
  have rb: "rendered_body big_body = replicate 50000 (CHR ''x'') @ truncation_marker big_body"
    by (simp add: rendered_body_def big_body_def)
  have n1: "str_int 50001 = ''50001''" and n2: "str_int 80 = ''80''" and n3: "str_int 200 = ''200''"
    by (simp_all add: str_int_def str_nat.simps digit_char_def)
  have nobody: "safe_decode utf8_decode_ascii None [] = []"
    by (simp add: safe_decode_def)
  have lines: "record_lines ?d = Inr
       [''=== REQUEST a ==='', ''Timestamp: 2024-01-01T00:00:00'', [],
        ''--- REQUEST ---'', ''GET http://example.com/'', ''Host: example.com:80'',
        ''Scheme: http'', [], ''Request Headers:'', [], ''Request Body: (empty)'', [],
        ''--- RESPONSE ---'', ''Status: 200 OK'', [], ''Response Headers:'',
        ''  Content-Type: text/plain'', [], ''Response Body (50001 bytes):'',
        replicate 50000 (CHR ''x'') @ truncation_marker big_body]"
    by (simp add: record_lines_def request_lines_def response_lines_def request_data_def
        getitem_Some big_flow_def body nobody content_length_def header_lines_def
        timestamp0_def rb ne n1 n2 n3)
  have tool: "tool_read_request (no_arguments\<lparr>a_request_id := Some ''a''\<rparr>) big_store_after =
     Inr (join nl
       [''=== REQUEST a ==='', ''Timestamp: 2024-01-01T00:00:00'', [],
        ''--- REQUEST ---'', ''GET http://example.com/'', ''Host: example.com:80'',
        ''Scheme: http'', [], ''Request Headers:'', [], ''Request Body: (empty)'', [],
        ''--- RESPONSE ---'', ''Status: 200 OK'', [], ''Response Headers:'',
        ''  Content-Type: text/plain'', [], ''Response Body (50001 bytes):'',
        replicate 50000 (CHR ''x'') @ truncation_marker big_body])"
    unfolding tool_read_request_def by (simp add: rr lines)
  have "last (replicate 50000 (CHR ''x'') @ truncation_marker big_body) = CHR '']''"
    by (simp add: truncation_marker_def)
  moreover have "last big_body = CHR ''x''"
    by (simp add: big_body_def)
  ultimately have differ: "replicate 50000 (CHR ''x'') @ truncation_marker big_body \<noteq> big_body"
    by auto
  from hook not_binary_text_plain decode_big tool differ show ?thesis
    by simp
qed

text \<open>
  C4 (amended). Whatever the strict UTF-8 decoder is: once the capture hook has stored a
  flow under an identifier other than \<open>index\<close>, the record read back holds the decoded
  bodies. A body that is valid UTF-8
  and whose declared content type contains none of the binary markers is decoded to its
  exact text; \<open>read_request\<close> shows a non-empty request body in full, and a non-empty
  response body in full when it has at most 50000 characters. A body whose declared
  content type contains a binary marker is stored as the placeholder that states its
  length and declared type, the same for all bodies of that length.
\<close>

theorem body_round_trip:
  assumes "fl_response fl = Some rs"
    and "response_hook utf8 i ts fl (index, st) = (None, index', st')"
    and "i \<noteq> []" and "i \<noteq> ''index''"
  shows "read_request st' i = Inr (Some (request_data utf8 i ts (fl_request fl) rs)) \<and>
         (\<exists>ls. tool_read_request (p\<lparr>a_request_id := Some i\<rparr>) st' = Inr (join nl ls) \<and>
            (safe_decode utf8 (fq_content (fl_request fl)) (fq_content_type (fl_request fl)) \<noteq> [] \<longrightarrow>
               safe_decode utf8 (fq_content (fl_request fl)) (fq_content_type (fl_request fl))
                 \<in> set ls) \<and>
            (safe_decode utf8 (fp_content rs) (fp_content_type rs) \<noteq> [] \<longrightarrow>
               rendered_body (safe_decode utf8 (fp_content rs) (fp_content_type rs)) \<in> set ls)) \<and>
         (utf8 b = Some s \<and> \<not> is_binary ct \<longrightarrow> safe_decode utf8 (Some b) ct = s) \<and>
         (length s \<le> 50000 \<longrightarrow> rendered_body s = s) \<and>
         (is_binary ct \<longrightarrow> safe_decode utf8 (Some b) ct = binary_placeholder b ct) \<and>
         (is_binary ct \<and> length b' = length b \<longrightarrow>
            safe_decode utf8 (Some b') ct = safe_decode utf8 (Some b) ct)"
proof -
  let ?d = "request_data utf8 i ts (fl_request fl) rs"
  have stored: "read_request st' i = Inr (Some ?d)"
    using assms(1,2,4) by (rule hook_stores_record)
  from record_lines_request_data [of utf8 i ts "fl_request fl" rs]
  obtain ls where ls: "record_lines ?d = Inr ls"
    "safe_decode utf8 (fq_content (fl_request fl)) (fq_content_type (fl_request fl)) \<noteq> [] \<longrightarrow>
       safe_decode utf8 (fq_content (fl_request fl)) (fq_content_type (fl_request fl)) \<in> set ls"
    "safe_decode utf8 (fp_content rs) (fp_content_type rs) \<noteq> [] \<longrightarrow>
       rendered_body (safe_decode utf8 (fp_content rs) (fp_content_type rs)) \<in> set ls"
    by blast
  from stored ls(1) assms(3)
  have "tool_read_request (p\<lparr>a_request_id := Some i\<rparr>) st' = Inr (join nl ls)"
    by (simp add: tool_read_request_def)
  with ls(2,3) have shown: "\<exists>ls. tool_read_request (p\<lparr>a_request_id := Some i\<rparr>) st' = Inr (join nl ls) \<and>
            (safe_decode utf8 (fq_content (fl_request fl)) (fq_content_type (fl_request fl)) \<noteq> [] \<longrightarrow>
               safe_decode utf8 (fq_content (fl_request fl)) (fq_content_type (fl_request fl))
                 \<in> set ls) \<and>
            (safe_decode utf8 (fp_content rs) (fp_content_type rs) \<noteq> [] \<longrightarrow>
               rendered_body (safe_decode utf8 (fp_content rs) (fp_content_type rs)) \<in> set ls)"
    by blast
  have codec: "(utf8 b = Some s \<and> \<not> is_binary ct \<longrightarrow> safe_decode utf8 (Some b) ct = s) \<and>
         (length s \<le> 50000 \<longrightarrow> rendered_body s = s) \<and>
         (is_binary ct \<longrightarrow> safe_decode utf8 (Some b) ct = binary_placeholder b ct) \<and>
         (is_binary ct \<and> length b' = length b \<longrightarrow>
            safe_decode utf8 (Some b') ct = safe_decode utf8 (Some b) ct)"
    by (simp add: safe_decode_def rendered_body_def binary_placeholder_def)
  from stored shown codec show ?thesis by blast
qed

theorem body_round_trip_witness:
  "read_request small_store_after ''a'' =
     Inr (Some (request_data utf8_decode_ascii ''a'' timestamp0 (fl_request small_flow)
                  (the (fl_response small_flow)))) \<and>
   safe_decode utf8_decode_ascii (Some [0x68, 0x69]) ''text/plain'' = ''hi'' \<and>
   safe_decode utf8_decode_ascii (Some [0x89, 0x50]) ''Image/PNG'' =
     ''[Binary content: 2 bytes, type: Image/PNG]'' \<and>
   safe_decode utf8_decode_ascii (Some [0x00, 0x01]) ''Image/PNG'' =
     safe_decode utf8_decode_ascii (Some [0x89, 0x50]) ''Image/PNG'' \<and>
   (\<exists>ls. tool_read_request (no_arguments\<lparr>a_request_id := Some ''a''\<rparr>) small_store_after =
            Inr (join nl ls) \<and> ''hi'' \<in> set ls \<and>
          ''[Binary content: 2 bytes, type: Image/PNG]'' \<in> set ls)"
proof -
  let ?rs = "the (fl_response small_flow)"
  have r: "fl_response small_flow = Some ?rs" by (simp add: small_flow_def)
  have h: "response_hook utf8_decode_ascii ''a'' timestamp0 small_flow (empty_index, []) =
      (None, fst (snd (response_hook utf8_decode_ascii ''a'' timestamp0 small_flow (empty_index, []))),
       small_store_after)"
    by (simp add: small_store_after_def response_hook_def small_flow_def write_file_def
        request_file_def INDEX_NAME_def empty_index_def empty_doc_def Let_def)
  have i1: "''a'' \<noteq> []" and i2: "''a'' \<noteq> ''index''" by simp_all
  have q: "safe_decode utf8_decode_ascii (fq_content (fl_request small_flow))
             (fq_content_type (fl_request small_flow)) = ''hi''"
    by (simp add: small_flow_def safe_decode_def not_binary_text_plain decode_hi)
  have s: "safe_decode utf8_decode_ascii (fp_content ?rs) (fp_content_type ?rs) =
             ''[Binary content: 2 bytes, type: Image/PNG]''"
    by (simp add: small_flow_def safe_decode_def binary_image_png binary_placeholder_def
        str_nat.simps digit_char_def)
  have short: "rendered_body ''[Binary content: 2 bytes, type: Image/PNG]'' =
      ''[Binary content: 2 bytes, type: Image/PNG]''"
    by (simp add: rendered_body_def)
  note T1 = body_round_trip [where b = "[0x68, 0x69]" and s = "''hi''" and ct = "''text/plain''"
      and b' = "[]" and p = no_arguments, OF r h i1 i2]
  note T2 = body_round_trip [where b = "[0x89, 0x50]" and s = "[]" and ct = "''Image/PNG''"
      and b' = "[0x00, 0x01]" and p = no_arguments, OF r h i1 i2]
  from T1 have stored: "read_request small_store_after ''a'' =
     Inr (Some (request_data utf8_decode_ascii ''a'' timestamp0 (fl_request small_flow) ?rs))"
    by blast
  from T1 decode_hi not_binary_text_plain
  have decoded: "safe_decode utf8_decode_ascii (Some [0x68, 0x69]) ''text/plain'' = ''hi''"
    by blast
  from T2 binary_image_png
  have bin: "safe_decode utf8_decode_ascii (Some [0x89, 0x50]) ''Image/PNG'' =
      binary_placeholder [0x89, 0x50] ''Image/PNG''"
    and same: "safe_decode utf8_decode_ascii (Some [0x00, 0x01]) ''Image/PNG'' =
      safe_decode utf8_decode_ascii (Some [0x89, 0x50]) ''Image/PNG''"
    by simp_all
  from T1 q s short
  have shown: "\<exists>ls. tool_read_request (no_arguments\<lparr>a_request_id := Some ''a''\<rparr>) small_store_after =
            Inr (join nl ls) \<and> ''hi'' \<in> set ls \<and>
          ''[Binary content: 2 bytes, type: Image/PNG]'' \<in> set ls"
    by simp
  from stored decoded bin same shown show ?thesis
    by (simp add: binary_placeholder_def str_nat.simps digit_char_def)
qed

end
